theory Spec2Isabelle
  imports Main
begin

section \<open>JavaScript values used by the dashboard\<close>

text \<open>
  The dashboard (\<^verbatim>\<open>src/frontend/src/pages/Dashboard.js\<close>) computes with JavaScript
  numbers. The model covers the integer-valued numbers together with \<^verbatim>\<open>NaN\<close> and the two
  infinities: on integers of magnitude below \<open>2^53\<close> the operations \<^verbatim>\<open>+\<close>, \<^verbatim>\<open>*\<close>,
  \<^verbatim>\<open>toFixed\<close> and the conversion to a string are exact, so every result below is the
  result of the JavaScript code as long as the intermediate values stay in that range.
  Fractional numbers are outside the model. A field that is absent from the JSON
  (\<^verbatim>\<open>undefined\<close>) is \<open>None\<close>.
\<close>

datatype jsnum = Num int | NaN | PosInf | NegInf

fun js_add :: "jsnum \<Rightarrow> jsnum \<Rightarrow> jsnum" where
  "js_add NaN _ = NaN"
| "js_add _ NaN = NaN"
| "js_add (Num a) (Num b) = Num (a + b)"
| "js_add PosInf NegInf = NaN"
| "js_add NegInf PosInf = NaN"
| "js_add PosInf _ = PosInf"
| "js_add _ PosInf = PosInf"
| "js_add NegInf _ = NegInf"
| "js_add _ NegInf = NegInf"

fun js_sign :: "jsnum \<Rightarrow> int" where
  "js_sign (Num a) = sgn a"
| "js_sign PosInf = 1"
| "js_sign NegInf = - 1"
| "js_sign NaN = 0"

fun js_mul :: "jsnum \<Rightarrow> jsnum \<Rightarrow> jsnum" where
  "js_mul NaN _ = NaN"
| "js_mul _ NaN = NaN"
| "js_mul (Num a) (Num b) = Num (a * b)"
| "js_mul a b =
     (if js_sign a * js_sign b = 0 then NaN
      else if 0 < js_sign a * js_sign b then PosInf else NegInf)"

text \<open>\<^verbatim>\<open>x || 0\<close> on a number field: \<^verbatim>\<open>undefined\<close>, \<^verbatim>\<open>NaN\<close> and \<^verbatim>\<open>0\<close> are falsy.\<close>

fun or_zero :: "jsnum option \<Rightarrow> jsnum" where
  "or_zero None = Num 0"
| "or_zero (Some NaN) = Num 0"
| "or_zero (Some (Num a)) = (if a = 0 then Num 0 else Num a)"
| "or_zero (Some x) = x"


section \<open>Data model\<close>

text \<open>
  A requirement and a project as the API returns them. The JavaScript field \<^verbatim>\<open>id\<close> is
  \<open>req_id\<close> and \<open>proj_id\<close> here. The status is the string the server sent; the code
  compares it with string literals.
\<close>

record req =
  req_id :: string
  requirement :: string
  status :: string
  priority :: string
  complexity :: string
  author :: string
  date :: string
  estimated_time :: "jsnum option"

record project =
  proj_id :: int
  name :: string
  hourly_rate :: "jsnum option"

record stats_summary =
  total :: nat
  approved :: nat
  inReview :: nat
  disapproved :: nat

record cost_summary =
  totalHours :: jsnum
  totalCost :: jsnum

record pagination_state =
  page :: int
  pages :: int
  total_items :: int

datatype filterType = TypeF | StatusF | ComplexityF | PriorityF

record filter_sets =
  type_sel :: "string list"
  status_sel :: "string list"
  complexity_sel :: "string list"
  priority_sel :: "string list"

text \<open>
  The component state: one field for each \<^verbatim>\<open>useState\<close> of \<^verbatim>\<open>Dashboard\<close> that the list,
  the statistics, the costs and the export read (the Jira settings and the modal flag are
  read by none of them).
\<close>

record dashboard =
  requirements :: "req list"
  overallStats :: stats_summary
  filteredStats :: stats_summary
  searchQuery :: string
  filters :: filter_sets
  loading :: bool
  error :: string
  pagination :: pagination_state
  selectedProject :: "int option"
  projects :: "project list"

section \<open>Derived values of a render\<close>

definition selectedProjectData :: "dashboard \<Rightarrow> project option" where
  "selectedProjectData s = find (\<lambda>p. Some (proj_id p) = selectedProject s) (projects s)"

definition hourlyRate :: "dashboard \<Rightarrow> jsnum" where
  "hourlyRate s =
     or_zero (case selectedProjectData s of None \<Rightarrow> None | Some p \<Rightarrow> hourly_rate p)"

fun isValidProjectId :: "int option \<Rightarrow> bool" where
  "isValidProjectId None = False"
| "isValidProjectId (Some n) = (0 < n)"

text \<open>\<^verbatim>\<open>calculateCosts\<close>; \<^verbatim>\<open>reduce\<close> is a left fold from \<^verbatim>\<open>0\<close>.\<close>

definition calculateCosts :: "jsnum \<Rightarrow> req list \<Rightarrow> cost_summary" where
  "calculateCosts rate reqs =
     (let totalHours = foldl (\<lambda>sum r. js_add sum (or_zero (estimated_time r))) (Num 0) reqs
      in \<lparr>totalHours = totalHours, totalCost = js_mul totalHours rate\<rparr>)"




definition currentCosts :: "dashboard \<Rightarrow> cost_summary" where
  "currentCosts s = calculateCosts (hourlyRate s) (requirements s)"

definition overallCosts :: "dashboard \<Rightarrow> cost_summary" where
  "overallCosts s = calculateCosts (hourlyRate s) (requirements s)"

text \<open>The two \<^verbatim>\<open>StatSection\<close> elements of the render: the counts and the costs each shows.\<close>

record stat_section =
  title :: string
  shown_stats :: stats_summary
  shown_costs :: cost_summary
  shown_rate :: jsnum

definition overallSection :: "dashboard \<Rightarrow> stat_section" where
  "overallSection s =
     \<lparr>title = ''Overall Statistics'', shown_stats = overallStats s,
      shown_costs = overallCosts s, shown_rate = hourlyRate s\<rparr>"

definition filteredSection :: "dashboard \<Rightarrow> stat_section" where
  "filteredSection s =
     \<lparr>title = ''Filtered Statistics'', shown_stats = filteredStats s,
      shown_costs = currentCosts s, shown_rate = hourlyRate s\<rparr>"

text \<open>The status counts that \<^verbatim>\<open>fetchRequirements\<close> derives from the returned page.\<close>

definition newFilteredStats :: "req list \<Rightarrow> stats_summary" where
  "newFilteredStats rs =
     \<lparr>total = length rs,
      approved = length (filter (\<lambda>r. status r = ''Approved'') rs),
      inReview = length (filter (\<lambda>r. status r = ''Review'') rs),
      disapproved = length (filter (\<lambda>r. status r = ''Disapproved'') rs)\<rparr>"

section \<open>Strings\<close>



text \<open>\<^verbatim>\<open>a || b\<close> on a string that may be absent: \<^verbatim>\<open>undefined\<close> and \<^verbatim>\<open>''\<close> are falsy.\<close>

fun str_or :: "string option \<Rightarrow> string \<Rightarrow> string" where
  "str_or None d = d"
| "str_or (Some m) d = (if m = [] then d else m)"


fun digits :: "nat \<Rightarrow> string" where
  "digits n =
     (if n < 10 then [''0123456789'' ! n]
      else digits (n div 10) @ [''0123456789'' ! (n mod 10)])"

declare digits.simps [simp del]

definition intToString :: "int \<Rightarrow> string" where
  "intToString n = (if n < 0 then ''-'' else []) @ digits (nat \<bar>n\<bar>)"



section \<open>Tracker push: the message of a failed push\<close>








section \<open>Query state and its handlers\<close>

fun getFilter :: "filter_sets \<Rightarrow> filterType \<Rightarrow> string list" where
  "getFilter f TypeF = type_sel f"
| "getFilter f StatusF = status_sel f"
| "getFilter f ComplexityF = complexity_sel f"
| "getFilter f PriorityF = priority_sel f"

fun setFilter :: "filter_sets \<Rightarrow> filterType \<Rightarrow> string list \<Rightarrow> filter_sets" where
  "setFilter f TypeF v = f\<lparr>type_sel := v\<rparr>"
| "setFilter f StatusF v = f\<lparr>status_sel := v\<rparr>"
| "setFilter f ComplexityF v = f\<lparr>complexity_sel := v\<rparr>"
| "setFilter f PriorityF v = f\<lparr>priority_sel := v\<rparr>"

text \<open>\<^verbatim>\<open>handleFilterChange\<close>: toggle the value in its filter, then set the page to 1.\<close>

definition handleFilterChange :: "filterType \<Rightarrow> string \<Rightarrow> dashboard \<Rightarrow> dashboard" where
  "handleFilterChange ft v s =
     (let prev = filters s;
          sel = (if v \<in> set (getFilter prev ft)
                 then filter (\<lambda>f. f \<noteq> v) (getFilter prev ft)
                 else getFilter prev ft @ [v])
      in s\<lparr>filters := setFilter prev ft sel,
            pagination := (pagination s)\<lparr>page := 1\<rparr>\<rparr>)"

text \<open>The search box: \<^verbatim>\<open>onChange={(e) => setSearchQuery(e.target.value)}\<close>.\<close>

definition setSearchQuery :: "string \<Rightarrow> dashboard \<Rightarrow> dashboard" where
  "setSearchQuery v s = s\<lparr>searchQuery := v\<rparr>"

text \<open>
  \<^verbatim>\<open>parseInt(value, 10)\<close>: white space is skipped, a sign is read, then the longest run
  of decimal digits; with no digit the result is \<^verbatim>\<open>NaN\<close>, here \<open>None\<close>.
\<close>

definition isWhiteSpace :: "char \<Rightarrow> bool" where
  "isWhiteSpace c = (c \<in> set [CHR '' '', CHR 0x09, CHR 0x0A, CHR 0x0B, CHR 0x0C, CHR 0x0D])"

definition isDigit :: "char \<Rightarrow> bool" where
  "isDigit c = (c \<in> set ''0123456789'')"

definition digitValue :: "char \<Rightarrow> nat" where
  "digitValue c = of_char c - 48"

definition parseInt10 :: "string \<Rightarrow> int option" where
  "parseInt10 v =
     (let s = dropWhile isWhiteSpace v;
          neg = (s \<noteq> [] \<and> hd s = CHR ''-'');
          body = (if s \<noteq> [] \<and> (hd s = CHR ''-'' \<or> hd s = CHR ''+'') then tl s else s);
          ds = takeWhile isDigit body;
          n = int (foldl (\<lambda>a c. 10 * a + digitValue c) 0 ds)
      in if ds = [] then None else Some (if neg then - n else n))"

text \<open>
  \<^verbatim>\<open>handleProjectChange\<close>: the value of the select is \<^verbatim>\<open>''\<close> or a project id as text.
  \<^verbatim>\<open>null\<close> and \<^verbatim>\<open>NaN\<close> both fail \<^verbatim>\<open>isValidProjectId\<close> and both end as \<^verbatim>\<open>null\<close>.
\<close>

definition handleProjectChange :: "string \<Rightarrow> dashboard \<Rightarrow> dashboard" where
  "handleProjectChange v s =
     (let projectId = (if v \<noteq> [] then parseInt10 v else None)
      in s\<lparr>selectedProject := (if isValidProjectId projectId then projectId else None)\<rparr>)"

text \<open>The two buttons of \<^verbatim>\<open>PaginationControls\<close>, which call \<^verbatim>\<open>setPagination\<close>.\<close>

datatype page_button = Previous | Next

fun onPageChange :: "page_button \<Rightarrow> dashboard \<Rightarrow> dashboard" where
  "onPageChange Previous s = s\<lparr>pagination := (pagination s)\<lparr>page := page (pagination s) - 1\<rparr>\<rparr>"
| "onPageChange Next s = s\<lparr>pagination := (pagination s)\<lparr>page := page (pagination s) + 1\<rparr>\<rparr>"

datatype action =
  SetSearchQuery string
| HandleFilterChange filterType string
| HandleProjectChange string
| OnPageChange page_button

fun act :: "action \<Rightarrow> dashboard \<Rightarrow> dashboard" where
  "act (SetSearchQuery v) s = setSearchQuery v s"
| "act (HandleFilterChange ft v) s = handleFilterChange ft v s"
| "act (HandleProjectChange v) s = handleProjectChange v s"
| "act (OnPageChange b) s = onPageChange b s"

text \<open>
  Which controls the render offers: the sidebar and the list exist only for a valid
  project, the search box and the project select are disabled while loading, the
  checkboxes never are, and the pagination buttons are shown with a non-empty list that is
  not loading (Previous disabled on page 1, Next on the last page).
\<close>

fun filterOptions :: "filterType \<Rightarrow> string list" where
  "filterOptions TypeF = [''Functional'', ''Non-Functional'', ''UI'', ''Security'', ''Performance'']"
| "filterOptions StatusF = [''Draft'', ''Review'', ''Approved'', ''Disapproved'']"
| "filterOptions ComplexityF = [''Low'', ''Moderate'', ''High'']"
| "filterOptions PriorityF = [''Low'', ''Medium'', ''High'']"

fun enabled :: "dashboard \<Rightarrow> action \<Rightarrow> bool" where
  "enabled s (SetSearchQuery v) = (isValidProjectId (selectedProject s) \<and> \<not> loading s)"
| "enabled s (HandleFilterChange ft v) =
     (isValidProjectId (selectedProject s) \<and> v \<in> set (filterOptions ft))"
| "enabled s (HandleProjectChange v) =
     (\<not> loading s \<and> (v = [] \<or> v \<in> set (map (\<lambda>p. intToString (proj_id p)) (projects s))))"
| "enabled s (OnPageChange b) =
     (isValidProjectId (selectedProject s) \<and> \<not> loading s \<and> requirements s \<noteq> [] \<and>
      (case b of Previous \<Rightarrow> page (pagination s) \<noteq> 1
               | Next \<Rightarrow> page (pagination s) \<noteq> pages (pagination s)))"

section \<open>The list fetch\<close>

text \<open>
  The values the effect's closure holds, which are also its dependency list:
  \<^verbatim>\<open>[selectedProject, searchQuery, filters, pagination.page]\<close>.
\<close>

record query =
  q_project :: "int option"
  q_search :: string
  q_filters :: filter_sets
  q_page :: int

definition capture :: "dashboard \<Rightarrow> query" where
  "capture s =
     \<lparr>q_project = selectedProject s, q_search = searchQuery s,
      q_filters = filters s, q_page = page (pagination s)\<rparr>"

record list_response =
  r_requirements :: "req list option"
  r_page :: "int option"
  r_pages :: "int option"
  r_total :: "int option"

text \<open>
  How the \<^verbatim>\<open>await axios.get\<close> ends: with the response data, or with a thrown error that
  may carry \<^verbatim>\<open>error.response.data.error\<close>.
\<close>

datatype outcome = Resolved list_response | Rejected "string option"

fun int_or :: "int option \<Rightarrow> int \<Rightarrow> int" where
  "int_or None d = d"
| "int_or (Some n) d = (if n = 0 then d else n)"

text \<open>\<^verbatim>\<open>fetchRequirements\<close> up to the \<^verbatim>\<open>await\<close>, for a valid project id.\<close>

definition fetchStart :: "dashboard \<Rightarrow> dashboard" where
  "fetchStart s = s\<lparr>loading := True, error := []\<rparr>"

text \<open>\<^verbatim>\<open>fetchRequirements\<close> after the \<^verbatim>\<open>await\<close>: the \<^verbatim>\<open>try\<close> body or the \<^verbatim>\<open>catch\<close>, then \<^verbatim>\<open>finally\<close>.\<close>

fun fetchFinish :: "outcome \<Rightarrow> dashboard \<Rightarrow> dashboard" where
  "fetchFinish (Resolved r) s =
     (let filteredRequirements = (case r_requirements r of None \<Rightarrow> [] | Some l \<Rightarrow> l)
      in s\<lparr>requirements := filteredRequirements,
            filteredStats := newFilteredStats filteredRequirements,
            pagination := \<lparr>page = int_or (r_page r) 1, pages = int_or (r_pages r) 1,
                           total_items = int_or (r_total r) 0\<rparr>,
            loading := False\<rparr>)"
| "fetchFinish (Rejected m) s =
     s\<lparr>error := str_or m ''Failed to load requirements'', requirements := [], loading := False\<rparr>"

text \<open>The overall statistics fetch after its \<^verbatim>\<open>await\<close>.\<close>

fun fetchOverallStatsFinish :: "stats_summary option \<Rightarrow> dashboard \<Rightarrow> dashboard" where
  "fetchOverallStatsFinish (Some d) s = s\<lparr>overallStats := d\<rparr>"
| "fetchOverallStatsFinish None s = s\<lparr>error := ''Failed to load statistics. Please try again.''\<rparr>"

text \<open>The project list fetch after its \<^verbatim>\<open>await\<close>.\<close>

fun fetchProjectsFinish :: "project list option \<Rightarrow> dashboard \<Rightarrow> dashboard" where
  "fetchProjectsFinish (Some ps) s = s\<lparr>projects := ps\<rparr>"
| "fetchProjectsFinish None s = s\<lparr>error := ''Failed to load projects. Please try again later.''\<rparr>"

section \<open>The event loop: renders, the debounce timer and responses\<close>

text \<open>
  The world around the component: the clock in milliseconds, the one debounce timer the
  last effect run left pending (its due time and the closure's values), every list request
  sent so far, oldest first, and the positions in that list of the requests still awaiting
  their response. The code keeps no such numbering; it is bookkeeping of the model.
\<close>

record world =
  dash :: dashboard
  clock :: nat
  timer :: "(nat \<times> query) option"
  sent :: "query list"
  inflight :: "nat list"

text \<open>
  A render with new state: when a dependency changed, the cleanup of the previous effect
  run clears its timer and the effect sets a new one, 500 ms ahead. React compares the
  \<^verbatim>\<open>filters\<close> object by identity; comparing its value gives the same answer, since
  \<^verbatim>\<open>handleFilterChange\<close> is the only caller of \<^verbatim>\<open>setFilters\<close> and always changes the value
  (lemma \<open>filter_change_changes_query\<close> below).
\<close>

definition rerender :: "dashboard \<Rightarrow> world \<Rightarrow> world" where
  "rerender s' w =
     (if capture s' \<noteq> capture (dash w)
      then w\<lparr>dash := s', timer := Some (clock w + 500, capture s')\<rparr>
      else w\<lparr>dash := s'\<rparr>)"

text \<open>The timer calls \<^verbatim>\<open>fetchRequirements\<close>, which returns at once for an invalid project id.\<close>

definition fire :: "query \<Rightarrow> world \<Rightarrow> world" where
  "fire q w =
     (if \<not> isValidProjectId (q_project q) then w\<lparr>timer := None\<rparr>
      else w\<lparr>dash := fetchStart (dash w), timer := None,
             sent := sent w @ [q], inflight := inflight w @ [length (sent w)]\<rparr>)"

text \<open>
  \<open>Response i out\<close> is the arrival of the response to the list request at position \<open>i\<close>;
  \<open>ProjectsResponse\<close> and \<open>StatsResponse\<close> are the arrivals of the two other fetches
  (\<open>None\<close> when the call failed).
\<close>

datatype event =
  User action
| Elapse nat
| Response nat outcome
| ProjectsResponse "project list option"
| StatsResponse "stats_summary option"

fun step :: "event \<Rightarrow> world \<Rightarrow> world" where
  "step (User a) w = (if enabled (dash w) a then rerender (act a (dash w)) w else w)"
| "step (Elapse d) w =
     (let w' = w\<lparr>clock := clock w + d\<rparr>
      in case timer w of
           None \<Rightarrow> w'
         | Some (due, q) \<Rightarrow> if due \<le> clock w' then fire q w' else w')"
| "step (Response i out) w =
     (if i \<in> set (inflight w)
      then rerender (fetchFinish out (dash w)) (w\<lparr>inflight := remove1 i (inflight w)\<rparr>)
      else w)"
| "step (ProjectsResponse r) w = rerender (fetchProjectsFinish r (dash w)) w"
| "step (StatsResponse r) w = rerender (fetchOverallStatsFinish r (dash w)) w"

definition run :: "event list \<Rightarrow> world \<Rightarrow> world" where
  "run es w = foldl (\<lambda>w e. step e w) w es"

text \<open>What the list area shows of a fetch: the list, its counts and the pagination.\<close>

definition displayed :: "dashboard \<Rightarrow> req list \<times> stats_summary \<times> pagination_state" where
  "displayed s = (requirements s, filteredStats s, pagination s)"

text \<open>The state of the first render, and the world once the first effect run set its timer.\<close>

definition initialState :: dashboard where
  "initialState =
     \<lparr>requirements = [],
      overallStats = \<lparr>total = 0, approved = 0, inReview = 0, disapproved = 0\<rparr>,
      filteredStats = \<lparr>total = 0, approved = 0, inReview = 0, disapproved = 0\<rparr>,
      searchQuery = [],
      filters = \<lparr>type_sel = [], status_sel = [], complexity_sel = [], priority_sel = []\<rparr>,
      loading = False, error = [],
      pagination = \<lparr>page = 1, pages = 1, total_items = 0\<rparr>,
      selectedProject = None, projects = []\<rparr>"

definition mounted :: world where
  "mounted =
     \<lparr>dash = initialState, clock = 0, timer = Some (500, capture initialState),
      sent = [], inflight = []\<rparr>"

section \<open>The CSV export\<close>
















section \<open>Bursts of query changes\<close>

text \<open>
  A query change is an action the render offers and that changes a dependency of the
  effect. A burst is a list of such changes, each with the time since the previous event;
  it stays within the debounce window when each of these gaps is below 500 ms.
\<close>

definition queryChange :: "dashboard \<Rightarrow> action \<Rightarrow> bool" where
  "queryChange s a = (enabled s a \<and> capture (act a s) \<noteq> capture s)"

fun burstEvents :: "(nat \<times> action) list \<Rightarrow> event list" where
  "burstEvents [] = []"
| "burstEvents ((d, a) # rest) = Elapse d # User a # burstEvents rest"

fun withinWindow :: "world \<Rightarrow> (nat \<times> action) list \<Rightarrow> bool" where
  "withinWindow w [] = True"
| "withinWindow w ((d, a) # rest) =
     (d < 500 \<and> queryChange (dash (step (Elapse d) w)) a
      \<and> withinWindow (step (User a) (step (Elapse d) w)) rest)"

section \<open>Example data\<close>

definition exampleReq :: req where
  \<open>exampleReq =
     \<lparr>req_id = ''abc123'', requirement = ''He said "hi"'', status = ''Approved'',
      priority = ''High'', complexity = ''Low'', author = ''Jo'', date = ''2024-01-05'',
      estimated_time = Some (Num 2)\<rparr>\<close>

definition draftReq :: req where
  "draftReq =
     \<lparr>req_id = ''def456'', requirement = ''Sketch the login page'', status = ''Draft'',
      priority = ''Low'', complexity = ''Low'', author = ''Al'', date = ''2024-02-01'',
      estimated_time = Some (Num 3)\<rparr>"

definition acmeProject :: project where
  "acmeProject = \<lparr>proj_id = 1, name = ''Acme Co'', hourly_rate = Some (Num 50)\<rparr>"

definition acmeState :: dashboard where
  "acmeState =
     initialState\<lparr>requirements := [exampleReq], selectedProject := Some 1,
                  projects := [acmeProject]\<rparr>"



definition onePage :: "req list \<Rightarrow> list_response" where
  "onePage rs = \<lparr>r_requirements = Some rs, r_page = Some 1, r_pages = Some 1,
                 r_total = Some (int (length rs))\<rparr>"

definition globexProject :: project where
  "globexProject = \<lparr>proj_id = 2, name = ''Globex'', hourly_rate = Some (Num 80)\<rparr>"

text \<open>The example project on page 3 of 5, and with an empty list.\<close>

definition pageThreeState :: dashboard where
  "pageThreeState =
     acmeState\<lparr>projects := [acmeProject, globexProject],
               pagination := \<lparr>page = 3, pages = 5, total_items = 50\<rparr>\<rparr>"


text \<open>
  A run in which a second request is sent while the first is still awaiting its response,
  and the second is answered first; and a run in which the project is selected and then
  deselected within one debounce window.
\<close>

definition staleTrace :: "event list" where
  "staleTrace =
     [ProjectsResponse (Some [acmeProject]),
      User (HandleProjectChange ''1''),
      Elapse 500,
      User (HandleFilterChange StatusF ''Approved''),
      Elapse 500,
      Response 1 (Resolved (onePage [exampleReq]))]"

definition deselectTrace :: "event list" where
  "deselectTrace =
     [ProjectsResponse (Some [acmeProject]),
      User (HandleProjectChange ''1''),
      Elapse 100,
      User (HandleProjectChange []),
      Elapse 500]"

text \<open>The world once the project list arrived, and a burst of two filter changes.\<close>

definition loadedWorld :: world where
  "loadedWorld = step (ProjectsResponse (Some [acmeProject])) mounted"

definition burstExample :: "(nat \<times> action) list" where
  "burstExample =
     [(100, HandleFilterChange StatusF ''Approved''),
      (200, HandleFilterChange PriorityF ''High'')]"

section \<open>Statistics\<close>

lemma status_counts_le:
  "length (filter (\<lambda>r. status r = ''Approved'') rs)
     + length (filter (\<lambda>r. status r = ''Review'') rs)
     + length (filter (\<lambda>r. status r = ''Disapproved'') rs) \<le> length rs"
  by (induction rs) auto

lemma count_status: "length (filter (\<lambda>r. status r = v) rs) = count_list (map status rs) v"
  by (induction rs) auto

lemma fetchFinish_idem: "fetchFinish out (fetchFinish out s) = fetchFinish out s"
  by (cases out) (simp_all add: Let_def)

text \<open>
  Claim C7. For every list of requirements, the counts that the fetch derives are: the
  total is the length of the list, and approved, inReview and disapproved are the numbers
  of records whose status is \<^verbatim>\<open>Approved\<close>, \<^verbatim>\<open>Review\<close> and \<^verbatim>\<open>Disapproved\<close>. The three
  together never exceed the total. The counts stored are a function of the returned
  records alone, and applying the same response again changes nothing.
\<close>

theorem stats_aggregation:
  "total (newFilteredStats R) = length R
   \<and> approved (newFilteredStats R) = count_list (map status R) ''Approved''
   \<and> inReview (newFilteredStats R) = count_list (map status R) ''Review''
   \<and> disapproved (newFilteredStats R) = count_list (map status R) ''Disapproved''
   \<and> approved (newFilteredStats R) + inReview (newFilteredStats R)
       + disapproved (newFilteredStats R) \<le> total (newFilteredStats R)
   \<and> filteredStats (fetchFinish (Resolved r) s)
       = newFilteredStats (case r_requirements r of None \<Rightarrow> [] | Some l \<Rightarrow> l)
   \<and> fetchFinish (Resolved r) (fetchFinish (Resolved r) s) = fetchFinish (Resolved r) s"
  using status_counts_le [of R]
  by (simp add: newFilteredStats_def count_status fetchFinish_idem Let_def)

section \<open>Costs\<close>

lemma hourlyRate_overallStats: "hourlyRate (s\<lparr>overallStats := x\<rparr>) = hourlyRate s"
  by (simp add: hourlyRate_def selectedProjectData_def)

text \<open>
  Claim C10. In every state the costs shown under "Overall Statistics" are the costs shown
  under "Filtered Statistics": both are \<^verbatim>\<open>calculateCosts\<close> of the list on display. A new
  answer of the statistics endpoint changes the overall counts and leaves the overall
  costs as they were.
\<close>

theorem overall_costs_are_filtered_costs:
  "shown_costs (overallSection s) = shown_costs (filteredSection s)
   \<and> shown_costs (overallSection s) = calculateCosts (hourlyRate s) (requirements s)
   \<and> shown_costs (overallSection (fetchOverallStatsFinish (Some d) s))
       = shown_costs (overallSection s)
   \<and> shown_stats (overallSection (fetchOverallStatsFinish (Some d) s)) = d
   \<and> shown_stats (filteredSection (fetchOverallStatsFinish (Some d) s)) = filteredStats s"
  by (simp add: overallSection_def filteredSection_def overallCosts_def currentCosts_def
      hourlyRate_overallStats)







section \<open>The CSV export of the example\<close>



section \<open>Query state: which handlers reset the page\<close>

lemma filter_change_resets_page: "page (pagination (handleFilterChange ft v s)) = 1"
  by (simp add: handleFilterChange_def Let_def)

lemma page_change_keeps_query:
  "searchQuery (onPageChange b s) = searchQuery s
   \<and> filters (onPageChange b s) = filters s
   \<and> selectedProject (onPageChange b s) = selectedProject s"
  by (cases b) simp_all

lemma search_change_keeps_page: "pagination (setSearchQuery v s) = pagination s"
  by (simp add: setSearchQuery_def)

lemma project_change_keeps_page: "pagination (handleProjectChange v s) = pagination s"
  by (simp add: handleProjectChange_def Let_def)

text \<open>
  Claim C2 at a state on page 3. Typing in the search box and choosing another project
  are both offered there, both update their field, and both leave the page at 3; a filter
  toggle at the same state sets the page to 1.
\<close>

theorem search_and_project_keep_page:
  "enabled pageThreeState (SetSearchQuery ''login'')
   \<and> searchQuery (act (SetSearchQuery ''login'') pageThreeState) = ''login''
   \<and> page (pagination (act (SetSearchQuery ''login'') pageThreeState)) = 3
   \<and> q_page (capture (act (SetSearchQuery ''login'') pageThreeState)) = 3
   \<and> enabled pageThreeState (HandleProjectChange ''2'')
   \<and> selectedProject (act (HandleProjectChange ''2'') pageThreeState) = Some 2
   \<and> page (pagination (act (HandleProjectChange ''2'') pageThreeState)) = 3
   \<and> page (pagination (act (HandleFilterChange StatusF ''Draft'') pageThreeState)) = 1"
  by code_simp

lemma toggle_changes: "(if v \<in> set xs then filter (\<lambda>f. f \<noteq> v) xs else xs @ [v]) \<noteq> xs"
proof (cases "v \<in> set xs")
  case True
  have "v \<notin> set (filter (\<lambda>f. f \<noteq> v) xs)" by simp
  with True have "filter (\<lambda>f. f \<noteq> v) xs \<noteq> xs" by metis
  with True show ?thesis by simp
next
  case False
  then show ?thesis by simp
qed

lemma getFilter_setFilter: "getFilter (setFilter f ft x) ft = x"
  by (cases ft) simp_all

lemma filter_change_changes_query: "capture (handleFilterChange ft v s) \<noteq> capture s"
proof
  assume "capture (handleFilterChange ft v s) = capture s"
  then have "filters (handleFilterChange ft v s) = filters s"
    by (simp add: capture_def)
  then have "getFilter (filters (handleFilterChange ft v s)) ft = getFilter (filters s) ft"
    by simp
  then have "(if v \<in> set (getFilter (filters s) ft)
              then filter (\<lambda>f. f \<noteq> v) (getFilter (filters s) ft)
              else getFilter (filters s) ft @ [v]) = getFilter (filters s) ft"
    by (simp add: handleFilterChange_def Let_def getFilter_setFilter)
  with toggle_changes [of v "getFilter (filters s) ft"] show False by simp
qed

section \<open>Export: where the guards are\<close>





section \<open>A failed list fetch\<close>

text \<open>
  Claim C6. After a failed list fetch the list is empty, the error is the message of the
  response body when there is a non-empty one and \<^verbatim>\<open>Failed to load requirements\<close>
  otherwise, and loading is false; loading is false after a successful fetch as well.
\<close>

theorem failed_fetch_state:
  "requirements (fetchFinish (Rejected m) s) = []
   \<and> error (fetchFinish (Rejected None) s) = ''Failed to load requirements''
   \<and> error (fetchFinish (Rejected (Some [])) s) = ''Failed to load requirements''
   \<and> error (fetchFinish (Rejected (Some (c # cs))) s) = c # cs
   \<and> \<not> loading (fetchFinish out s)"
  by (cases out) (simp_all add: Let_def)

section \<open>Debounce and responses\<close>

lemma run_Nil: "run [] w = w"
  by (simp add: run_def)

lemma run_Cons: "run (e # es) w = run es (step e w)"
  by (simp add: run_def)

lemma step_user_change:
  "queryChange (dash w) a \<Longrightarrow>
   step (User a) w
     = w\<lparr>dash := act a (dash w), timer := Some (clock w + 500, capture (act a (dash w)))\<rparr>"
  by (simp add: queryChange_def rerender_def)

lemma step_elapse_pending:
  "timer w = Some (due, q) \<Longrightarrow> clock w + d < due \<Longrightarrow> step (Elapse d) w = w\<lparr>clock := clock w + d\<rparr>"
  by (simp add: Let_def)

lemma step_elapse_due:
  "timer w = Some (due, q) \<Longrightarrow> due \<le> clock w + d \<Longrightarrow>
   step (Elapse d) w = fire q (w\<lparr>clock := clock w + d\<rparr>)"
  by (simp add: Let_def)

lemma user_keeps_requests:
  "sent (step (User a) w) = sent w \<and> inflight (step (User a) w) = inflight w"
  by (simp add: rerender_def)

lemma burst_invariant:
  "timer w = Some (clock w + 500, capture (dash w)) \<Longrightarrow> withinWindow w evs \<Longrightarrow>
   dash (run (burstEvents evs) w) = foldl (\<lambda>s a. act a s) (dash w) (map snd evs)
   \<and> timer (run (burstEvents evs) w)
       = Some (clock (run (burstEvents evs) w) + 500, capture (dash (run (burstEvents evs) w)))
   \<and> sent (run (burstEvents evs) w) = sent w
   \<and> inflight (run (burstEvents evs) w) = inflight w"
proof (induction evs arbitrary: w)
  case Nil
  then show ?case by (simp add: run_Nil)
next
  case (Cons ev evs)
  obtain d a where ev: "ev = (d, a)" by (cases ev)
  define w1 where "w1 = step (Elapse d) w"
  define w2 where "w2 = step (User a) w1"
  from Cons.prems(2) have short: "d < 500"
    and chg: "queryChange (dash w1) a"
    and rest: "withinWindow w2 evs"
    by (simp_all add: ev w1_def w2_def)
  have e1: "w1 = w\<lparr>clock := clock w + d\<rparr>"
    unfolding w1_def using step_elapse_pending [OF Cons.prems(1), of d] short by simp
  have e2: "w2 = w1\<lparr>dash := act a (dash w1),
                     timer := Some (clock w1 + 500, capture (act a (dash w1)))\<rparr>"
    unfolding w2_def by (rule step_user_change [OF chg])
  have inv2: "timer w2 = Some (clock w2 + 500, capture (dash w2))"
    by (simp add: e2)
  have run2: "run (burstEvents (ev # evs)) w = run (burstEvents evs) w2"
    by (simp add: ev run_Cons w1_def w2_def)
  have same: "dash w2 = act a (dash w)" "sent w2 = sent w" "inflight w2 = inflight w"
    by (simp_all add: e2 e1)
  from Cons.IH [OF inv2 rest] show ?case
    unfolding run2 by (simp add: same ev)
qed

text \<open>
  Claim C9, as stated, fails. Selecting a project and, 100 ms later, the empty entry of
  the select are two query changes within one window; 500 ms later the timer has fired
  and no request was sent.
\<close>

theorem deselect_sends_nothing:
  "selectedProject (dash (run (take 2 deselectTrace) mounted)) = Some 1
   \<and> queryChange (dash (run (take 3 deselectTrace) mounted)) (HandleProjectChange [])
   \<and> selectedProject (dash (run deselectTrace mounted)) = None
   \<and> timer (run deselectTrace mounted) = None
   \<and> sent (run deselectTrace mounted) = []"
  by code_simp

text \<open>
  Claim C9, amended. After a query change followed by any burst of query changes whose
  gaps are all below 500 ms, the state is the result of all the changes, one timer is
  pending, due 500 ms after the last change with the descriptor of the last change, and no
  request was sent during the burst. Once 500 ms or more have passed the timer is gone and
  exactly one request was sent, with that descriptor, when its project id is valid; when
  it is not valid, no request was sent.
\<close>

theorem debounce_burst:
  assumes "queryChange (dash w) a0"
    and "withinWindow (step (User a0) w) evs"
    and "500 \<le> d"
  shows "dash (run (User a0 # burstEvents evs) w)
           = foldl (\<lambda>s a. act a s) (dash w) (a0 # map snd evs)
         \<and> timer (run (User a0 # burstEvents evs) w)
             = Some (clock (run (User a0 # burstEvents evs) w) + 500,
                     capture (dash (run (User a0 # burstEvents evs) w)))
         \<and> sent (run (User a0 # burstEvents evs) w) = sent w
         \<and> timer (step (Elapse d) (run (User a0 # burstEvents evs) w)) = None
         \<and> sent (step (Elapse d) (run (User a0 # burstEvents evs) w))
             = sent w @ (if isValidProjectId (selectedProject (dash (run (User a0 # burstEvents evs) w)))
                         then [capture (dash (run (User a0 # burstEvents evs) w))] else [])"
proof -
  define w0 where "w0 = step (User a0) w"
  define w1 where "w1 = run (User a0 # burstEvents evs) w"
  have e0: "w0 = w\<lparr>dash := act a0 (dash w),
                    timer := Some (clock w + 500, capture (act a0 (dash w)))\<rparr>"
    unfolding w0_def by (rule step_user_change [OF assms(1)])
  have inv0: "timer w0 = Some (clock w0 + 500, capture (dash w0))"
    by (simp add: e0)
  have r: "w1 = run (burstEvents evs) w0" by (simp add: run_Cons w0_def w1_def)
  have win: "withinWindow w0 evs" using assms(2) by (simp add: w0_def)
  note b = burst_invariant [OF inv0 win]
  have same: "dash w0 = act a0 (dash w)" "sent w0 = sent w" by (simp_all add: e0)
  have d1: "dash w1 = foldl (\<lambda>s a. act a s) (dash w) (a0 # map snd evs)"
    using b unfolding r by (simp add: same)
  have t1: "timer w1 = Some (clock w1 + 500, capture (dash w1))"
    using b unfolding r by simp
  have s1: "sent w1 = sent w"
    using b unfolding r by (simp add: same)
  have e: "step (Elapse d) w1 = fire (capture (dash w1)) (w1\<lparr>clock := clock w1 + d\<rparr>)"
    using step_elapse_due [OF t1, of d] assms(3) by simp
  have t2: "timer (step (Elapse d) w1) = None"
    unfolding e by (simp add: fire_def)
  have s2: "sent (step (Elapse d) w1)
              = sent w @ (if isValidProjectId (selectedProject (dash w1))
                          then [capture (dash w1)] else [])"
    unfolding e by (simp add: fire_def s1 capture_def)
  from d1 t1 s1 t2 s2 show ?thesis unfolding w1_def by simp
qed

theorem debounce_burst_witness:
  "queryChange (dash loadedWorld) (HandleProjectChange ''1'')
   \<and> withinWindow (step (User (HandleProjectChange ''1'')) loadedWorld) burstExample
   \<and> (500::nat) \<le> 500
   \<and> sent (run (User (HandleProjectChange ''1'') # burstEvents burstExample) loadedWorld) = []
   \<and> sent (step (Elapse 500)
         (run (User (HandleProjectChange ''1'') # burstEvents burstExample) loadedWorld))
       = [\<lparr>q_project = Some 1, q_search = [],
           q_filters = \<lparr>type_sel = [], status_sel = [''Approved''], complexity_sel = [],
                        priority_sel = [''High'']\<rparr>,
           q_page = 1\<rparr>]"
proof -
  have h1: "queryChange (dash loadedWorld) (HandleProjectChange ''1'')" by code_simp
  have h2: "withinWindow (step (User (HandleProjectChange ''1'')) loadedWorld) burstExample"
    by code_simp
  have h3: "(500::nat) \<le> 500" by simp
  have v: "foldl (\<lambda>s a. act a s) (dash loadedWorld)
             (HandleProjectChange ''1'' # map snd burstExample)
           = (dash loadedWorld)\<lparr>selectedProject := Some 1,
               filters := \<lparr>type_sel = [], status_sel = [''Approved''], complexity_sel = [],
                           priority_sel = [''High'']\<rparr>\<rparr>"
    by code_simp
  have s0: "sent loadedWorld = []" by code_simp
  have d0: "searchQuery (dash loadedWorld) = [] \<and> page (pagination (dash loadedWorld)) = 1"
    by code_simp
  define W where "W = run (User (HandleProjectChange ''1'') # burstEvents burstExample) loadedWorld"
  note t = debounce_burst [OF h1 h2 h3, folded W_def]
  have a: "dash W = foldl (\<lambda>s a. act a s) (dash loadedWorld)
                      (HandleProjectChange ''1'' # map snd burstExample)"
    by (rule t [THEN conjunct1])
  have c: "sent W = sent loadedWorld"
    by (rule t [THEN conjunct2, THEN conjunct2, THEN conjunct1])
  have e: "sent (step (Elapse 500) W)
             = sent loadedWorld @ (if isValidProjectId (selectedProject (dash W))
                                   then [capture (dash W)] else [])"
    by (rule t [THEN conjunct2, THEN conjunct2, THEN conjunct2, THEN conjunct2])
  have r1: "sent W = []" by (simp only: c s0)
  have r2: "sent (step (Elapse 500) W)
       = [\<lparr>q_project = Some 1, q_search = [],
           q_filters = \<lparr>type_sel = [], status_sel = [''Approved''], complexity_sel = [],
                        priority_sel = [''High'']\<rparr>,
           q_page = 1\<rparr>]"
    unfolding e a v by (simp add: s0 d0 capture_def)
  from h1 h2 h3 r1 r2 show ?thesis unfolding W_def by blast
qed

text \<open>
  Claim C1, as stated, fails. In the run below the first request is still awaiting its
  response when the second is sent; the second is answered and the list shows its
  record; then the response to the first arrives and the list shows its record instead.
\<close>

theorem stale_response_overwrites:
  "inflight (run staleTrace mounted) = [0]
   \<and> length (sent (run staleTrace mounted)) = 2
   \<and> requirements (dash (run staleTrace mounted)) = [exampleReq]
   \<and> requirements (dash (step (Response 0 (Resolved (onePage [draftReq]))) (run staleTrace mounted)))
       = [draftReq]
   \<and> displayed (dash (step (Response 0 (Resolved (onePage [draftReq]))) (run staleTrace mounted)))
       \<noteq> displayed (dash (run staleTrace mounted))"
  by code_simp

text \<open>
  Claim C1, amended. The response to any request still awaiting one is applied when it
  arrives, whatever was sent since: the list, the filtered counts and the pagination on
  display become those of that response. A user action removes no request from those
  awaiting a response; it can only replace the pending timer.
\<close>

theorem response_applied_on_arrival:
  assumes "i \<in> set (inflight w)"
  shows "displayed (dash (step (Response i (Resolved r)) w))
           = ((case r_requirements r of None \<Rightarrow> [] | Some l \<Rightarrow> l),
              newFilteredStats (case r_requirements r of None \<Rightarrow> [] | Some l \<Rightarrow> l),
              \<lparr>page = int_or (r_page r) 1, pages = int_or (r_pages r) 1,
               total_items = int_or (r_total r) 0\<rparr>)
         \<and> sent (step (User a) w) = sent w
         \<and> inflight (step (User a) w) = inflight w"
  using assms by (simp add: rerender_def displayed_def Let_def)

theorem response_applied_on_arrival_witness:
  "0 \<in> set (inflight (run staleTrace mounted))
   \<and> displayed (dash (step (Response 0 (Resolved (onePage [draftReq]))) (run staleTrace mounted)))
       = ([draftReq], newFilteredStats [draftReq], \<lparr>page = 1, pages = 1, total_items = 1\<rparr>)"
proof -
  have h: "0 \<in> set (inflight (run staleTrace mounted))" by code_simp
  show ?thesis
    using h response_applied_on_arrival [OF h, of "onePage [draftReq]"]
    by (simp add: onePage_def)
qed

section \<open>The message of a failed push\<close>













end
